theory Spec2Isabelle
  imports Complex_Main
begin

section \<open>Data model (Parser.hpp)\<close>

text \<open>
  \<^verbatim>\<open>struct Expression { std::string token; std::vector<Expression> arguments; }\<close>.
  The three constructors build a node with no, one or two arguments; \<^verbatim>\<open>return {}\<close>
  is the node with the empty token and no argument.
\<close>

datatype Expression = Expression (token: string) (arguments: "Expression list")

text \<open>\<^verbatim>\<open>enum class Parser::State\<close>.\<close>

datatype State = Ok | InvalidSyntax | UnknownBinaryOperator | UnknownUnaryOperator
  | UnknownExpressionType

text \<open>
  What a call can do besides returning: recurse or loop for ever (the model then runs out
  of fuel, whatever fuel it is given), or leave defined behaviour (a read through a pointer
  outside the input buffer, an integer remainder by zero, an exception of
  \<^verbatim>\<open>std::stold\<close> that nothing catches).
\<close>

datatype 'a outcome = OutOfFuel | Aborted | Returned 'a

subsection \<open>The platform: long double arithmetic and the C library\<close>

text \<open>
  The numeric type \<^verbatim>\<open>long double\<close>, its arithmetic and the functions of
  \<^verbatim>\<open><cmath>\<close> and \<^verbatim>\<open><string>\<close> are not code of this repository. They
  are a parameter of the model, the type \<open>'n\<close> with the operations below; nothing is
  assumed about them. \<open>stold\<close> is \<^verbatim>\<open>std::stold\<close> (\<open>None\<close>: it throws),
  \<open>to_long\<close> the conversion \<^verbatim>\<open>(long int)a\<close> (\<open>None\<close>: the value is out of
  range, which is undefined), \<open>of_long\<close> the conversion of an integer constant or of a
  \<^verbatim>\<open>long int\<close> to \<^verbatim>\<open>long double\<close>, \<open>pi_ld\<close> the constant
  \<^verbatim>\<open>std::numbers::pi\<close>. C++ leaves the order in which
  the two arguments of a call are evaluated to the compiler: \<open>lhs_first\<close> says whether
  the left one comes first.
\<close>

datatype cmath = Fabs | Log2 | Log10 | Log | Sin | Cos | Tan | Asin | Acos | Atan | Sqrt
  | Tgamma

record 'n platform =
  stold :: "string \<Rightarrow> 'n option"
  fadd :: "'n \<Rightarrow> 'n \<Rightarrow> 'n"
  fsub :: "'n \<Rightarrow> 'n \<Rightarrow> 'n"
  fmul :: "'n \<Rightarrow> 'n \<Rightarrow> 'n"
  fdiv :: "'n \<Rightarrow> 'n \<Rightarrow> 'n"
  fneg :: "'n \<Rightarrow> 'n"
  fpow :: "'n \<Rightarrow> 'n \<Rightarrow> 'n"
  call :: "cmath \<Rightarrow> 'n \<Rightarrow> 'n"
  to_long :: "'n \<Rightarrow> int option"
  of_long :: "int \<Rightarrow> 'n"
  long_min :: int
  pi_ld :: 'n
  lhs_first :: bool

subsection \<open>The parser object\<close>

text \<open>
  \<open>m_Input\<close> is a \<^verbatim>\<open>char*\<close>: \<open>None\<close> is the null (or not yet assigned) pointer,
  \<open>Some (buf, pos)\<close> points at offset \<open>pos\<close> of the C string \<open>buf\<close>, whose
  terminating NUL is at offset \<open>length buf\<close>. The offset is an integer, since
  \<^verbatim>\<open>m_Input -= op.size()\<close> can move it anywhere.

  The handlers are \<^verbatim>\<open>std::function\<close> objects. The built-in ones capture
  \<^verbatim>\<open>this\<close> and read \<open>m_Radians\<close> when they are called, so a unary handler takes
  the flag as its first argument. A binary handler returns \<open>None\<close> where the C++ is
  undefined (the remainder).
\<close>

record 'n Parser =
  m_State :: State
  m_Input :: "(string \<times> int) option"
  m_Radians :: bool
  TOKENS :: "string list"
  CONSTANTS :: "string \<rightharpoonup> string"
  FUNCTIONS :: "string \<rightharpoonup> (bool \<Rightarrow> 'n \<Rightarrow> 'n)"
  OPERATORS :: "string \<rightharpoonup> ('n \<Rightarrow> 'n \<Rightarrow> 'n option)"

text \<open>
  The remainder handler \<^verbatim>\<open>(long int)a % (long int)b\<close>: both operands are converted
  to \<^verbatim>\<open>long int\<close>, the remainder is C's (it has the sign of the dividend), and the
  result is converted back. A zero divisor and \<^verbatim>\<open>LONG_MIN % -1\<close> are undefined.
\<close>

definition c_rem :: "int \<Rightarrow> int \<Rightarrow> int" where
  "c_rem x y = sgn x * (\<bar>x\<bar> mod \<bar>y\<bar>)"

definition op_rem :: "'n platform \<Rightarrow> 'n \<Rightarrow> 'n \<Rightarrow> 'n option" where
  "op_rem A a b =
     (case to_long A a of
        None \<Rightarrow> None
      | Some x \<Rightarrow>
          (case to_long A b of
             None \<Rightarrow> None
           | Some y \<Rightarrow>
               if y = 0 \<or> (x = long_min A \<and> y = - 1) then None
               else Some (of_long A (c_rem x y))))"

definition deg_in :: "'n platform \<Rightarrow> cmath \<Rightarrow> bool \<Rightarrow> 'n \<Rightarrow> 'n" where
  \<comment> \<open>\<^verbatim>\<open>m_Radians ? sin(a) : sin(a * pi / 180.0)\<close>\<close>
  "deg_in A f radians a =
     (if radians then call A f a
      else call A f (fdiv A (fmul A a (pi_ld A)) (of_long A 180)))"

definition deg_out :: "'n platform \<Rightarrow> cmath \<Rightarrow> bool \<Rightarrow> 'n \<Rightarrow> 'n" where
  \<comment> \<open>\<^verbatim>\<open>m_Radians ? asin(a) : asin(a) / pi * 180.0\<close>\<close>
  "deg_out A f radians a =
     (if radians then call A f a
      else fmul A (fdiv A (call A f a) (pi_ld A)) (of_long A 180))"

text \<open>
  The object after \<^verbatim>\<open>Parser::Parser()\<close>: the member initialisers of the class.
  \<open>CONSTANTS\<close> holds \<^verbatim>\<open>std::to_string\<close> of the two \<^verbatim>\<open>double\<close> constants,
  which prints six decimals. The unqualified \<^verbatim>\<open>abs(a)\<close> is the overload the
  platform's headers select, \<open>call A Fabs\<close>. \<open>m_Input\<close> and \<open>m_Radians\<close> have no initialiser:
  their first values are indeterminate (here the null pointer and \<open>False\<close>), and
  \<open>Get\<close> assigns both before anything reads them.
\<close>

definition TOKENS0 :: "string list" where
  "TOKENS0 =
     [''+'', ''-'', ''^'', ''*'', ''/'', ''%'', ''('', '')'', ''!'', ''e'', ''lg'', ''ln'',
      ''pi'', ''abs'', ''sin'', ''cos'', ''tan'', ''sqrt'', ''asin'', ''acos'', ''atan'',
      ''log2'']"

definition CONSTANTS0 :: "string \<rightharpoonup> string" where
  "CONSTANTS0 = map_of [(''pi'', ''3.141593''), (''e'', ''2.718282'')]"

definition FUNCTIONS0 :: "'n platform \<Rightarrow> string \<rightharpoonup> (bool \<Rightarrow> 'n \<Rightarrow> 'n)" where
  "FUNCTIONS0 A = map_of
     [(''+'', \<lambda>r a. a),
      (''-'', \<lambda>r a. fneg A a),
      (''abs'', \<lambda>r a. call A Fabs a),
      (''log2'', \<lambda>r a. call A Log2 a),
      (''lg'', \<lambda>r a. call A Log10 a),
      (''ln'', \<lambda>r a. call A Log a),
      (''sin'', deg_in A Sin),
      (''cos'', deg_in A Cos),
      (''tan'', deg_in A Tan),
      (''asin'', deg_out A Asin),
      (''acos'', deg_out A Acos),
      (''atan'', deg_out A Atan),
      (''sqrt'', \<lambda>r a. call A Sqrt a),
      (''!'', \<lambda>r a. call A Tgamma (fadd A a (of_long A 1)))]"

definition OPERATORS0 :: "'n platform \<Rightarrow> string \<rightharpoonup> ('n \<Rightarrow> 'n \<Rightarrow> 'n option)" where
  "OPERATORS0 A = map_of
     [(''+'', \<lambda>a b. Some (fadd A a b)),
      (''-'', \<lambda>a b. Some (fsub A a b)),
      (''*'', \<lambda>a b. Some (fmul A a b)),
      (''/'', \<lambda>a b. Some (fdiv A a b)),
      (''^'', \<lambda>a b. Some (fpow A a b)),
      (''%'', op_rem A)]"

definition Parser_new :: "'n platform \<Rightarrow> 'n Parser" where
  "Parser_new A =
     \<lparr>m_State = Ok, m_Input = None, m_Radians = False, TOKENS = TOKENS0,
      CONSTANTS = CONSTANTS0, FUNCTIONS = FUNCTIONS0 A, OPERATORS = OPERATORS0 A\<rparr>"

definition GetState :: "'n Parser \<Rightarrow> State" where
  "GetState P = m_State P"

definition IsOk :: "'n Parser \<Rightarrow> bool" where
  "IsOk P = (m_State P = Ok)"

fun GetPriority :: "string \<Rightarrow> int" where
  "GetPriority binaryOp =
     (if binaryOp = ''+'' then 1
      else if binaryOp = ''-'' then 1
      else if binaryOp = ''*'' then 2
      else if binaryOp = ''/'' then 2
      else if binaryOp = ''%'' then 3
      else if binaryOp = ''^'' then 3
      else 0)"

section \<open>Registration\<close>

text \<open>
  The loop of \<open>AddOperator\<close> and \<open>AddFunction\<close> over the \<^verbatim>\<open>std::list\<close>: an
  insertion before \<^verbatim>\<open>it\<close> leaves the iterator where it is, so the loop goes on
  and puts one copy of \<open>text\<close> in front of every element that is longer.
\<close>

primrec insert_before_longer :: "string \<Rightarrow> string list \<Rightarrow> string list" where
  "insert_before_longer text [] = []"
| "insert_before_longer text (t # ts) =
     (if length t > length text then text # t # insert_before_longer text ts
      else t # insert_before_longer text ts)"

text \<open>\<^verbatim>\<open>unordered_map::insert\<close> keeps the old value of a key that is present.\<close>

definition map_insert :: "('k \<rightharpoonup> 'v) \<Rightarrow> 'k \<Rightarrow> 'v \<Rightarrow> ('k \<rightharpoonup> 'v)" where
  "map_insert m k v = (case m k of None \<Rightarrow> m(k \<mapsto> v) | Some old \<Rightarrow> m)"

definition AddOperator :: "'n Parser \<Rightarrow> string \<Rightarrow> ('n \<Rightarrow> 'n \<Rightarrow> 'n) \<Rightarrow> 'n Parser" where
  "AddOperator P text handler =
     P\<lparr>OPERATORS := map_insert (OPERATORS P) text (\<lambda>a b. Some (handler a b)),
       TOKENS := insert_before_longer text (TOKENS P)\<rparr>"

definition AddFunction :: "'n Parser \<Rightarrow> string \<Rightarrow> ('n \<Rightarrow> 'n) \<Rightarrow> 'n Parser" where
  "AddFunction P text handler =
     P\<lparr>FUNCTIONS := map_insert (FUNCTIONS P) text (\<lambda>r. handler),
       TOKENS := insert_before_longer text (TOKENS P @ [text])\<rparr>"

section \<open>Tokenizer\<close>

text \<open>
  \<^verbatim>\<open>isspace\<close>, \<^verbatim>\<open>isdigit\<close> and \<^verbatim>\<open>isalpha\<close> with \<^verbatim>\<open>tolower\<close> are
  those of the C locale; a byte outside ASCII is in none of the classes.
\<close>

definition isspace :: "char \<Rightarrow> bool" where
  "isspace c = (c \<in> set [CHR '' '', CHR 0x09, CHR 0x0A, CHR 0x0B, CHR 0x0C, CHR 0x0D])"

definition isdigit :: "char \<Rightarrow> bool" where
  "isdigit c = (c \<in> set ''0123456789'')"

definition tolower :: "char \<Rightarrow> char" where
  \<comment> \<open>\<^verbatim>\<open>if (isalpha(c)) c = tolower(c)\<close>, in the C locale\<close>
  "tolower c =
     (case map_of (zip ''ABCDEFGHIJKLMNOPQRSTUVWXYZ'' ''abcdefghijklmnopqrstuvwxyz'') c of
        None \<Rightarrow> c
      | Some l \<Rightarrow> l)"

definition strncmp_eq :: "string \<Rightarrow> string \<Rightarrow> bool" where
  \<comment> \<open>\<^verbatim>\<open>strncmp(m_Input, t->data(), t->length()) == 0\<close>, the rest of the input being
      \<open>rest\<close>; the symbols hold no NUL\<close>
  "strncmp_eq rest t = (take (length t) rest = t)"

definition advance :: "int \<Rightarrow> 'n Parser \<Rightarrow> 'n Parser" where
  \<comment> \<open>\<^verbatim>\<open>m_Input += k\<close>\<close>
  "advance k P = P\<lparr>m_Input := map_option (\<lambda>(buf, pos). (buf, pos + k)) (m_Input P)\<rparr>"

text \<open>
  \<open>ParseToken\<close> returns its \<^verbatim>\<open>bool\<close>, the token (the reference parameter \<open>tok\<close>, to
  which a numeral is appended) and the parser. A read outside the buffer is \<open>None\<close>.
\<close>

definition ParseToken :: "'n Parser \<Rightarrow> string \<Rightarrow> (bool \<times> string \<times> 'n Parser) option" where
  "ParseToken P tok =
     (case m_Input P of
        None \<Rightarrow> None
      | Some (buf, pos) \<Rightarrow>
          if pos < 0 \<or> int (length buf) < pos then None
          else
            let spaces = takeWhile isspace (drop (nat pos) buf);
                P1 = advance (int (length spaces)) P;
                rest = dropWhile isspace (drop (nat pos) buf)
            in (case rest of
                 [] \<Rightarrow> Some (False, tok, P1)
               | c # cs \<Rightarrow>
                   if isdigit c then
                     (let num = takeWhile (\<lambda>c. isdigit c \<or> c = CHR ''.'') rest;
                          tok1 = tok @ num;
                          P2 = advance (int (length num)) P1
                      in if last tok1 = CHR ''.''
                         then Some (True, tok1, P2\<lparr>m_State := InvalidSyntax\<rparr>)
                         else Some (True, tok1, P2))
                   else
                     (case find (strncmp_eq rest) (rev (TOKENS P)) of
                        Some t \<Rightarrow>
                          let P2 = advance (int (length t)) P1
                          in (case CONSTANTS P t of
                                Some text \<Rightarrow> Some (True, text, P2)
                              | None \<Rightarrow> Some (False, t, P2))
                      | None \<Rightarrow> Some (False, tok, P1\<lparr>m_State := InvalidSyntax\<rparr>))))"

section \<open>Parser\<close>

text \<open>
  The two procedures call each other, and \<open>ParseSimpleExpression\<close> calls itself; the
  \<^verbatim>\<open>while (1)\<close> of \<open>ParseBinaryExpression\<close> is \<open>ParseBinaryLoop\<close>. Nothing in
  the code bounds the recursion or the loop, so each call and each iteration takes one
  unit of fuel, and \<open>OutOfFuel\<close> for every amount of fuel is a run that does not end.
\<close>

fun ParseSimpleExpression :: "nat \<Rightarrow> 'n Parser \<Rightarrow> (Expression \<times> 'n Parser) outcome"
  and ParseBinaryExpression :: "nat \<Rightarrow> int \<Rightarrow> 'n Parser \<Rightarrow> (Expression \<times> 'n Parser) outcome"
  and ParseBinaryLoop ::
    "nat \<Rightarrow> int \<Rightarrow> Expression \<Rightarrow> 'n Parser \<Rightarrow> (Expression \<times> 'n Parser) outcome"
where
  "ParseSimpleExpression 0 P = OutOfFuel"
| "ParseSimpleExpression (Suc n) P =
     (case ParseToken P [] of
        None \<Rightarrow> Aborted
      | Some (isNumber, tok, P1) \<Rightarrow>
          if \<not> IsOk P1 then Returned (Expression [] [], P1)
          else if isNumber then Returned (Expression tok [], P1)
          else if tok = ''('' then
            (case ParseBinaryExpression n 0 P1 of
               OutOfFuel \<Rightarrow> OutOfFuel
             | Aborted \<Rightarrow> Aborted
             | Returned (result, P2) \<Rightarrow>
                 (case ParseToken P2 [] of
                    None \<Rightarrow> Aborted
                  | Some (isNumber2, tok2, P3) \<Rightarrow>
                      if tok2 \<noteq> '')''
                      then Returned (Expression [] [], P3\<lparr>m_State := InvalidSyntax\<rparr>)
                      else Returned (result, P3)))
          else
            (case ParseSimpleExpression n P1 of
               OutOfFuel \<Rightarrow> OutOfFuel
             | Aborted \<Rightarrow> Aborted
             | Returned (rhs, P2) \<Rightarrow> Returned (Expression tok [rhs], P2)))"
| "ParseBinaryExpression 0 minPriority P = OutOfFuel"
| "ParseBinaryExpression (Suc n) minPriority P =
     (case ParseSimpleExpression n P of
        OutOfFuel \<Rightarrow> OutOfFuel
      | Aborted \<Rightarrow> Aborted
      | Returned (lhs, P1) \<Rightarrow> ParseBinaryLoop n minPriority lhs P1)"
| "ParseBinaryLoop 0 minPriority lhs P = OutOfFuel"
| "ParseBinaryLoop (Suc n) minPriority lhs P =
     (case ParseToken P [] of
        None \<Rightarrow> Aborted
      | Some (isNumber, op, P1) \<Rightarrow>
          let priority = GetPriority op
          in if priority \<le> minPriority
             then Returned (lhs, advance (- int (length op)) P1)
             else
               (case ParseBinaryExpression n priority P1 of
                  OutOfFuel \<Rightarrow> OutOfFuel
                | Aborted \<Rightarrow> Aborted
                | Returned (rhs, P2) \<Rightarrow>
                    ParseBinaryLoop n minPriority (Expression op [lhs, rhs]) P2))"

section \<open>Evaluator\<close>

text \<open>
  The value of a call is \<open>None\<close> when control leaves \<open>Evaluate\<close> through the
  \<^verbatim>\<open>break\<close> of an unknown operator (or with an argument count no \<^verbatim>\<open>case\<close>
  covers): the function then ends without a \<^verbatim>\<open>return\<close>, and what the caller
  reads is indeterminate. A handler fed such a value gives an indeterminate value in turn.
\<close>

definition apply_binary ::
  "('n \<Rightarrow> 'n \<Rightarrow> 'n option) \<Rightarrow> 'n option \<Rightarrow> 'n option \<Rightarrow> 'n Parser \<Rightarrow> ('n option \<times> 'n Parser) outcome"
where
  "apply_binary handler a b P =
     (case a of
        None \<Rightarrow> Returned (None, P)
      | Some x \<Rightarrow>
          (case b of
             None \<Rightarrow> Returned (None, P)
           | Some y \<Rightarrow>
               (case handler x y of
                  None \<Rightarrow> Aborted
                | Some v \<Rightarrow> Returned (Some v, P))))"

fun Evaluate :: "'n platform \<Rightarrow> Expression \<Rightarrow> 'n Parser \<Rightarrow> ('n option \<times> 'n Parser) outcome"
where
  "Evaluate A (Expression tok [lhs, rhs]) P =
     (case OPERATORS P tok of
        None \<Rightarrow> Returned (None, P\<lparr>m_State := UnknownBinaryOperator\<rparr>)
      | Some handler \<Rightarrow>
          if lhs_first A then
            (case Evaluate A lhs P of
               OutOfFuel \<Rightarrow> OutOfFuel
             | Aborted \<Rightarrow> Aborted
             | Returned (a, P1) \<Rightarrow>
                 (case Evaluate A rhs P1 of
                    OutOfFuel \<Rightarrow> OutOfFuel
                  | Aborted \<Rightarrow> Aborted
                  | Returned (b, P2) \<Rightarrow> apply_binary handler a b P2))
          else
            (case Evaluate A rhs P of
               OutOfFuel \<Rightarrow> OutOfFuel
             | Aborted \<Rightarrow> Aborted
             | Returned (b, P1) \<Rightarrow>
                 (case Evaluate A lhs P1 of
                    OutOfFuel \<Rightarrow> OutOfFuel
                  | Aborted \<Rightarrow> Aborted
                  | Returned (a, P2) \<Rightarrow> apply_binary handler a b P2)))"
| "Evaluate A (Expression tok [arg]) P =
     (case FUNCTIONS P tok of
        None \<Rightarrow> Returned (None, P\<lparr>m_State := UnknownUnaryOperator\<rparr>)
      | Some handler \<Rightarrow>
          (case Evaluate A arg P of
             OutOfFuel \<Rightarrow> OutOfFuel
           | Aborted \<Rightarrow> Aborted
           | Returned (a, P1) \<Rightarrow> Returned (map_option (handler (m_Radians P1)) a, P1)))"
| "Evaluate A (Expression tok []) P =
     (if tok = [] \<or> list_ex (\<lambda>c. \<not> isdigit c \<and> c \<noteq> CHR ''.'') tok
      then Returned (Some (of_long A 0), P\<lparr>m_State := UnknownExpressionType\<rparr>)
      else (case stold A tok of
              None \<Rightarrow> Aborted
            | Some v \<Rightarrow> Returned (Some v, P)))"
| "Evaluate A (Expression tok (a # b # c # others)) P = Returned (None, P)"

section \<open>The entry point\<close>

text \<open>
  The statements of \<open>Get\<close> before the parse: the input is lower-cased, \<open>m_Input\<close>
  points at its C string (which ends at the first NUL), the flag and the state are set.
\<close>

definition Get_begin :: "'n Parser \<Rightarrow> string \<Rightarrow> bool \<Rightarrow> 'n Parser" where
  "Get_begin P input radians =
     P\<lparr>m_Input := Some (takeWhile (\<lambda>c. c \<noteq> CHR 0x00) (map tolower input), 0),
       m_Radians := radians,
       m_State := Ok\<rparr>"

definition Get ::
  "nat \<Rightarrow> 'n platform \<Rightarrow> 'n Parser \<Rightarrow> string \<Rightarrow> bool \<Rightarrow> ('n option \<times> 'n Parser) outcome"
where
  "Get fuel A P input radians =
     (case ParseBinaryExpression fuel 0 (Get_begin P input radians) of
        OutOfFuel \<Rightarrow> OutOfFuel
      | Aborted \<Rightarrow> Aborted
      | Returned (expr, P1) \<Rightarrow>
          (case Evaluate A expr P1 of
             OutOfFuel \<Rightarrow> OutOfFuel
           | Aborted \<Rightarrow> Aborted
           | Returned (result, P2) \<Rightarrow> Returned (result, P2\<lparr>m_Input := None\<rparr>)))"

text \<open>
  What the caller of \<open>Get\<close> observes, as \<^verbatim>\<open>main\<close> does: the value returned, and
  then \<open>GetState\<close>.
\<close>

definition Get_and_State ::
  "nat \<Rightarrow> 'n platform \<Rightarrow> 'n Parser \<Rightarrow> string \<Rightarrow> bool \<Rightarrow> ('n option \<times> State) outcome"
where
  "Get_and_State fuel A P input radians =
     (case Get fuel A P input radians of
        OutOfFuel \<Rightarrow> OutOfFuel
      | Aborted \<Rightarrow> Aborted
      | Returned (result, P1) \<Rightarrow> Returned (result, GetState P1))"

text \<open>
  What \<open>Get\<close> has when the parse returns, before it calls \<open>Evaluate\<close>: the
  expression tree, the state, and the offset of \<open>m_Input\<close> in the input.
\<close>

definition Get_parse ::
  "nat \<Rightarrow> 'n Parser \<Rightarrow> string \<Rightarrow> bool \<Rightarrow> (Expression \<times> State \<times> int option) outcome"
where
  "Get_parse fuel P input radians =
     (case ParseBinaryExpression fuel 0 (Get_begin P input radians) of
        OutOfFuel \<Rightarrow> OutOfFuel
      | Aborted \<Rightarrow> Aborted
      | Returned (expr, P1) \<Rightarrow> Returned (expr, m_State P1, map_option snd (m_Input P1)))"

text \<open>
  The cursor stands at the end of the input: \<open>m_Input\<close> points into the buffer and
  only white space lies between it and the terminating NUL.
\<close>

definition at_end :: "'n Parser \<Rightarrow> bool" where
  "at_end P =
     (case m_Input P of
        None \<Rightarrow> False
      | Some (buf, pos) \<Rightarrow>
          0 \<le> pos \<and> pos \<le> int (length buf) \<and> list_all isspace (drop (nat pos) buf))"

text \<open>
  The tokens of the nodes without argument of a tree, and what the parser can put
  there: the empty token of \<^verbatim>\<open>return {}\<close>, once a failure state is set, or a
  token of digits and points that begins with a digit and does not end with a point.
\<close>

fun leaf_tokens :: "Expression \<Rightarrow> string list" where
  "leaf_tokens (Expression tok []) = [tok]"
| "leaf_tokens (Expression tok (a # as)) = concat (map leaf_tokens (a # as))"

definition numeral_shape :: "string \<Rightarrow> bool" where
  "numeral_shape tok =
     (tok \<noteq> [] \<and> isdigit (hd tok) \<and> last tok \<noteq> CHR ''.'' \<and>
      list_all (\<lambda>c. isdigit c \<or> c = CHR ''.'') tok)"

definition leaf_ok :: "bool \<Rightarrow> string \<Rightarrow> bool" where
  "leaf_ok failed tok = ((failed \<and> tok = []) \<or> numeral_shape tok)"

text \<open>
  The numeral of claim C7, in the claim's words: not empty, digits and decimal points
  only, and at most one decimal point.
\<close>

definition claimed_numeral :: "string \<Rightarrow> bool" where
  "claimed_numeral tok =
     (tok \<noteq> [] \<and> list_all (\<lambda>c. isdigit c \<or> c = CHR ''.'') tok \<and>
      length (filter (\<lambda>c. c = CHR ''.'') tok) \<le> 1)"


section \<open>Exact arithmetic as a platform\<close>

text \<open>
  The platform used where a claim names a number: the reals, with every operation exact.
  Rounding, overflow, infinities and NaN are not represented, so it stands for
  \<^verbatim>\<open>long double\<close> only where operands and results are small integers or short
  binary fractions, which IEEE arithmetic computes exactly too. \<open>stold_exact\<close> reads the
  longest prefix \<open>digits [. digits]\<close> as \<^verbatim>\<open>std::stold\<close> does on the strings
  \<open>Evaluate\<close> lets through (digits and points only), and throws when there is no digit.
  \<open>tgamma_exact\<close> is the gamma function: the factorial at the positive integers, Euler's
  limit elsewhere. \<^verbatim>\<open>long int\<close> has 64 bits.
\<close>

definition digit_val :: "char \<Rightarrow> nat" where
  "digit_val c = of_char c - 48"

definition stold_exact :: "string \<Rightarrow> real option" where
  "stold_exact s =
     (let ip = takeWhile isdigit s;
          after = dropWhile isdigit s;
          fp = (case after of
                  [] \<Rightarrow> []
                | c # cs \<Rightarrow> if c = CHR ''.'' then takeWhile isdigit cs else [])
      in if ip = [] \<and> fp = [] then None
         else Some (foldl (\<lambda>acc c. acc * 10 + real (digit_val c)) 0 ip
                    + foldr (\<lambda>c acc. (real (digit_val c) + acc) / 10) fp 0))"

definition pow_exact :: "real \<Rightarrow> real \<Rightarrow> real" where
  "pow_exact x y =
     (if y = of_int \<lfloor>y\<rfloor> then (if 0 \<le> y then x ^ nat \<lfloor>y\<rfloor> else 1 / x ^ nat (- \<lfloor>y\<rfloor>))
      else x powr y)"

definition tgamma_exact :: "real \<Rightarrow> real" where
  "tgamma_exact x =
     (if 0 < x \<and> x = of_int \<lfloor>x\<rfloor> then fact (nat \<lfloor>x\<rfloor> - 1)
      else lim (\<lambda>n. fact n * real n powr x / (\<Prod>k = 0..n. x + real k)))"

definition trunc_exact :: "real \<Rightarrow> int option" where
  "trunc_exact x =
     (let t = (if 0 \<le> x then \<lfloor>x\<rfloor> else \<lceil>x\<rceil>)
      in if - (2 ^ 63) \<le> t \<and> t < 2 ^ 63 then Some t else None)"

fun call_exact :: "cmath \<Rightarrow> real \<Rightarrow> real" where
  "call_exact Fabs x = \<bar>x\<bar>"
| "call_exact Log2 x = log 2 x"
| "call_exact Log10 x = log 10 x"
| "call_exact Log x = ln x"
| "call_exact Sin x = sin x"
| "call_exact Cos x = cos x"
| "call_exact Tan x = tan x"
| "call_exact Asin x = arcsin x"
| "call_exact Acos x = arccos x"
| "call_exact Atan x = arctan x"
| "call_exact Sqrt x = sqrt x"
| "call_exact Tgamma x = tgamma_exact x"

definition exact :: "real platform" where
  "exact =
     \<lparr>stold = stold_exact, fadd = (+), fsub = (-), fmul = (*), fdiv = (/),
      fneg = uminus, fpow = pow_exact, call = call_exact, to_long = trunc_exact,
      of_long = of_int, long_min = - (2 ^ 63), pi_ld = pi, lhs_first = True\<rparr>"

section \<open>Fuel\<close>

text \<open>
  A run that does not run out of fuel does the same with more: the result of a parse does
  not depend on the fuel, once there is enough.
\<close>

lemma fuel_step:
  "(ParseSimpleExpression n (P :: 'n Parser) \<noteq> OutOfFuel \<longrightarrow>
      ParseSimpleExpression (Suc n) P = ParseSimpleExpression n P) \<and>
   (ParseBinaryExpression n m P \<noteq> OutOfFuel \<longrightarrow>
      ParseBinaryExpression (Suc n) m P = ParseBinaryExpression n m P) \<and>
   (ParseBinaryLoop n m l P \<noteq> OutOfFuel \<longrightarrow>
      ParseBinaryLoop (Suc n) m l P = ParseBinaryLoop n m l P)"
proof (induction n arbitrary: P m l)
  case 0
  show ?case by simp
next
  case (Suc n)
  have S: "ParseSimpleExpression n Q \<noteq> OutOfFuel \<Longrightarrow>
      ParseSimpleExpression (Suc n) Q = ParseSimpleExpression n Q" for Q :: "'n Parser"
    by (rule Suc.IH [THEN conjunct1, THEN mp])
  have B: "ParseBinaryExpression n k Q \<noteq> OutOfFuel \<Longrightarrow>
      ParseBinaryExpression (Suc n) k Q = ParseBinaryExpression n k Q" for k and Q :: "'n Parser"
    by (rule Suc.IH [THEN conjunct2, THEN conjunct1, THEN mp])
  have L: "ParseBinaryLoop n k e Q \<noteq> OutOfFuel \<Longrightarrow>
      ParseBinaryLoop (Suc n) k e Q = ParseBinaryLoop n k e Q" for k e and Q :: "'n Parser"
    by (rule Suc.IH [THEN conjunct2, THEN conjunct2, THEN mp])
  note uS = ParseSimpleExpression.simps(2) [where P = P]
  note uB = ParseBinaryExpression.simps(2) [where P = P and minPriority = m]
  note uL = ParseBinaryLoop.simps(2) [where P = P and minPriority = m and lhs = l]
  note [simp del] = ParseSimpleExpression.simps ParseBinaryExpression.simps
    ParseBinaryLoop.simps GetPriority.simps
  have 1: "ParseSimpleExpression (Suc (Suc n)) P = ParseSimpleExpression (Suc n) P"
    if ne: "ParseSimpleExpression (Suc n) P \<noteq> OutOfFuel"
  proof (cases "ParseToken P []")
    case None
    then show ?thesis by (simp add: uS)
  next
    case (Some r)
    then obtain b t P1 where tk: "ParseToken P [] = Some (b, t, P1)"
      by (cases r) auto
    show ?thesis
    proof (cases "IsOk P1 \<and> \<not> b")
      case False
      then show ?thesis using tk by (auto simp: uS)
    next
      case ok: True
      show ?thesis
      proof (cases "t = ''(''")
        case True
        have "ParseBinaryExpression n 0 P1 \<noteq> OutOfFuel"
          using ne tk ok True by (auto simp: uS)
        then have "ParseBinaryExpression (Suc n) 0 P1 = ParseBinaryExpression n 0 P1"
          by (rule B)
        then show ?thesis using tk ok True by (simp add: uS)
      next
        case False
        have "ParseSimpleExpression n P1 \<noteq> OutOfFuel"
          using ne tk ok False by (auto simp: uS)
        then have "ParseSimpleExpression (Suc n) P1 = ParseSimpleExpression n P1"
          by (rule S)
        then show ?thesis using tk ok False by (simp add: uS)
      qed
    qed
  qed
  have 2: "ParseBinaryExpression (Suc (Suc n)) m P = ParseBinaryExpression (Suc n) m P"
    if ne: "ParseBinaryExpression (Suc n) m P \<noteq> OutOfFuel"
  proof -
    have "ParseSimpleExpression n P \<noteq> OutOfFuel"
      using ne by (auto simp: uB)
    then have eq: "ParseSimpleExpression (Suc n) P = ParseSimpleExpression n P"
      by (rule S)
    show ?thesis
    proof (cases "ParseSimpleExpression n P")
      case (Returned r)
      obtain lhs P1 where r: "r = (lhs, P1)" by (cases r)
      have "ParseBinaryLoop n m lhs P1 \<noteq> OutOfFuel"
        using ne Returned r by (simp add: uB)
      then have "ParseBinaryLoop (Suc n) m lhs P1 = ParseBinaryLoop n m lhs P1"
        by (rule L)
      then show ?thesis using eq Returned r by (simp add: uB)
    qed (simp_all add: uB eq)
  qed
  have 3: "ParseBinaryLoop (Suc (Suc n)) m l P = ParseBinaryLoop (Suc n) m l P"
    if ne: "ParseBinaryLoop (Suc n) m l P \<noteq> OutOfFuel"
  proof (cases "ParseToken P []")
    case None
    then show ?thesis by (simp add: uL)
  next
    case (Some r)
    then obtain b t P1 where tk: "ParseToken P [] = Some (b, t, P1)"
      by (cases r) auto
    show ?thesis
    proof (cases "GetPriority t \<le> m")
      case True
      then show ?thesis using tk by (simp add: uL)
    next
      case False
      have "ParseBinaryExpression n (GetPriority t) P1 \<noteq> OutOfFuel"
        using ne tk False by (auto simp: uL Let_def)
      then have eq: "ParseBinaryExpression (Suc n) (GetPriority t) P1
          = ParseBinaryExpression n (GetPriority t) P1"
        by (rule B)
      show ?thesis
      proof (cases "ParseBinaryExpression n (GetPriority t) P1")
        case (Returned r)
        obtain rhs P2 where r: "r = (rhs, P2)" by (cases r)
        have "ParseBinaryLoop n m (Expression t [l, rhs]) P2 \<noteq> OutOfFuel"
          using ne tk False Returned r by (simp add: uL Let_def)
        then have "ParseBinaryLoop (Suc n) m (Expression t [l, rhs]) P2
            = ParseBinaryLoop n m (Expression t [l, rhs]) P2"
          by (rule L)
        then show ?thesis using eq tk False Returned r by (simp add: uL Let_def)
      qed (simp_all add: uL eq tk False Let_def)
    qed
  qed
  from 1 2 3 show ?case by blast
qed

lemma ParseBinaryExpression_fuel:
  "ParseBinaryExpression n m P \<noteq> OutOfFuel \<Longrightarrow>
     ParseBinaryExpression (n + k) m P = ParseBinaryExpression n m P"
proof (induction k)
  case 0
  show ?case by simp
next
  case (Suc k)
  then have "ParseBinaryExpression (n + k) m P \<noteq> OutOfFuel"
    by simp
  then have "ParseBinaryExpression (Suc (n + k)) m P = ParseBinaryExpression (n + k) m P"
    using fuel_step [of "n + k" P m] by blast
  with Suc show ?case by simp
qed

lemma Get_parse_fuel:
  assumes "Get_parse n P input radians \<noteq> OutOfFuel"
  shows "Get_parse (n + k) P input radians = Get_parse n P input radians"
proof -
  have "ParseBinaryExpression n 0 (Get_begin P input radians) \<noteq> OutOfFuel"
    using assms by (auto simp: Get_parse_def)
  then have "ParseBinaryExpression (n + k) 0 (Get_begin P input radians)
      = ParseBinaryExpression n 0 (Get_begin P input radians)"
    by (rule ParseBinaryExpression_fuel)
  then show ?thesis by (simp add: Get_parse_def)
qed

lemma Get_fuel:
  assumes "Get n A P input radians \<noteq> OutOfFuel"
  shows "Get (n + k) A P input radians = Get n A P input radians"
proof -
  have "ParseBinaryExpression n 0 (Get_begin P input radians) \<noteq> OutOfFuel"
    using assms by (auto simp: Get_def)
  then have "ParseBinaryExpression (n + k) 0 (Get_begin P input radians)
      = ParseBinaryExpression n 0 (Get_begin P input radians)"
    by (rule ParseBinaryExpression_fuel)
  then show ?thesis by (simp add: Get_def)
qed

lemma Get_and_State_fuel:
  assumes "Get_and_State n A P input radians \<noteq> OutOfFuel"
  shows "Get_and_State (n + k) A P input radians = Get_and_State n A P input radians"
proof -
  have "Get n A P input radians \<noteq> OutOfFuel"
    using assms by (auto simp: Get_and_State_def)
  then have "Get (n + k) A P input radians = Get n A P input radians"
    by (rule Get_fuel)
  then show ?thesis by (simp add: Get_and_State_def)
qed

subsection \<open>Running the model on an input\<close>

lemma Parser_new_sel [simp]:
  "m_State (Parser_new A) = Ok" "m_Input (Parser_new A) = None"
  "TOKENS (Parser_new A) = TOKENS0" "CONSTANTS (Parser_new A) = CONSTANTS0"
  "FUNCTIONS (Parser_new A) = FUNCTIONS0 A" "OPERATORS (Parser_new A) = OPERATORS0 A"
  by (simp_all add: Parser_new_def)

lemma exact_sel [simp]:
  "stold exact = stold_exact" "fadd exact = (+)" "fsub exact = (-)" "fmul exact = (*)"
  "fdiv exact = (/)" "fneg exact = uminus" "fpow exact = pow_exact" "call exact = call_exact"
  "to_long exact = trunc_exact" "of_long exact = of_int" "long_min exact = - (2 ^ 63)"
  "pi_ld exact = pi" "lhs_first exact = True"
  by (simp_all add: exact_def)

lemma fuel_numeral:
  "ParseSimpleExpression (numeral k) P = ParseSimpleExpression (Suc (pred_numeral k)) P"
  "ParseBinaryExpression (numeral k) m P = ParseBinaryExpression (Suc (pred_numeral k)) m P"
  "ParseBinaryLoop (numeral k) m l P = ParseBinaryLoop (Suc (pred_numeral k)) m l P"
  by (simp_all add: numeral_eq_Suc)

lemmas fuel_simps =
  trans [OF fuel_numeral(1) ParseSimpleExpression.simps(2)]
  trans [OF fuel_numeral(2) ParseBinaryExpression.simps(2)]
  trans [OF fuel_numeral(3) ParseBinaryLoop.simps(2)]

lemmas run_defs =
  fuel_simps ParseToken_def Get_begin_def tolower_def isspace_def isdigit_def advance_def
  IsOk_def TOKENS0_def CONSTANTS0_def strncmp_eq_def

lemmas eval_defs =
  Get_parse_def Get_and_State_def Get_def GetState_def FUNCTIONS0_def OPERATORS0_def
  apply_binary_def

lemmas exact_defs =
  stold_exact_def digit_val_def pow_exact_def tgamma_exact_def trunc_exact_def op_rem_def
  c_rem_def

subsection \<open>At the end of the input\<close>

lemma ParseToken_at_end:
  assumes "at_end P"
  shows "\<exists>k. ParseToken P tok = Some (False, tok, advance k P) \<and> at_end (advance k P)"
proof -
  obtain buf pos where m: "m_Input P = Some (buf, pos)"
    and pos: "0 \<le> pos" "pos \<le> int (length buf)"
    and sp: "list_all isspace (drop (nat pos) buf)"
    using assms by (auto simp: at_end_def split: option.splits)
  have tw: "takeWhile isspace (drop (nat pos) buf) = drop (nat pos) buf"
    using sp by (simp add: list_all_iff)
  have dw: "dropWhile isspace (drop (nat pos) buf) = []"
    using sp by (simp add: list_all_iff)
  let ?k = "int (length (drop (nat pos) buf))"
  have "ParseToken P tok = Some (False, tok, advance ?k P)"
    using m pos by (simp add: ParseToken_def tw dw)
  moreover have "at_end (advance ?k P)"
    using m pos by (simp add: at_end_def advance_def)
  ultimately show ?thesis by blast
qed

lemma ParseSimpleExpression_at_end:
  "IsOk P \<Longrightarrow> at_end P \<Longrightarrow> ParseSimpleExpression n P = OutOfFuel"
proof (induction n arbitrary: P)
  case 0
  show ?case by simp
next
  case (Suc n)
  obtain k where tk: "ParseToken P [] = Some (False, [], advance k P)"
    and e: "at_end (advance k P)"
    using ParseToken_at_end [OF Suc.prems(2)] by blast
  have ok: "IsOk (advance k P)"
    using Suc.prems(1) by (simp add: IsOk_def advance_def)
  have "ParseSimpleExpression n (advance k P) = OutOfFuel"
    using ok e by (rule Suc.IH)
  then show ?case using tk ok by simp
qed

lemma ParseBinaryExpression_at_end:
  "IsOk P \<Longrightarrow> at_end P \<Longrightarrow> ParseBinaryExpression n m P = OutOfFuel"
  by (cases n) (simp_all add: ParseSimpleExpression_at_end)

subsection \<open>Runs on the inputs the claims name\<close>

lemma more_fuel_parse:
  "Get_parse k P input radians = Returned x \<Longrightarrow>
     Get_parse (k + n) P input radians = Returned x"
  using Get_parse_fuel [of k P input radians n] by simp

lemma more_fuel:
  "Get_and_State k A P input radians = Returned x \<Longrightarrow>
     Get_and_State (k + n) A P input radians = Returned x"
  using Get_and_State_fuel [of k A P input radians n] by simp

lemma less_fuel:
  assumes "Get_and_State (k + n) A P input radians = Returned x"
    and "Get_and_State n A P input radians = Returned y"
  shows "y = x"
proof -
  have "Get_and_State (n + k) A P input radians = Returned y"
    using assms(2) by (rule more_fuel)
  with assms(1) show ?thesis by (simp add: add.commute)
qed

lemma parse_sum_product:
  "Get_parse (20 + n) (Parser_new A) ''2+3*4'' True =
     Returned (Expression ''+'' [Expression ''2'' [],
       Expression ''*'' [Expression ''3'' [], Expression ''4'' []]], Ok, Some 5)"
  by (rule more_fuel_parse) (simp add: run_defs eval_defs)




lemma parse_power_chain:
  "Get_parse (20 + n) (Parser_new A) ''2^3^2'' True =
     Returned (Expression ''^'' [Expression ''^'' [Expression ''2'' [], Expression ''3'' []],
       Expression ''2'' []], Ok, Some 5)"
  by (rule more_fuel_parse) (simp add: run_defs eval_defs)

lemma run_power_chain:
  "Get_and_State (20 + n) exact (Parser_new exact) ''2^3^2'' True = Returned (Some 64, Ok)"
  by (rule more_fuel) (simp add: run_defs eval_defs exact_defs)

lemma parse_postfix_bang:
  "Get_parse (20 + n) (Parser_new A) ''3!'' True = Returned (Expression ''3'' [], Ok, Some 1)"
  by (rule more_fuel_parse) (simp add: run_defs eval_defs)

lemma run_postfix_bang:
  "Get_and_State (20 + n) exact (Parser_new exact) ''3!'' True = Returned (Some 3, Ok)"
  by (rule more_fuel) (simp add: run_defs eval_defs exact_defs)

lemma parse_prefix_bang:
  "Get_parse (20 + n) (Parser_new A) ''!3'' True =
     Returned (Expression ''!'' [Expression ''3'' []], Ok, Some 2)"
  by (rule more_fuel_parse) (simp add: run_defs eval_defs)

lemma run_prefix_bang:
  "Get_and_State (20 + n) exact (Parser_new exact) ''!3'' True = Returned (Some 6, Ok)"
  by (rule more_fuel) (simp add: run_defs eval_defs exact_defs fact_numeral)




lemma run_div_zero:
  "Get_and_State (20 + n) A (Parser_new A) ''1/0'' True =
     (case stold A ''1'' of
        None \<Rightarrow> Aborted
      | Some a \<Rightarrow>
          (case stold A ''0'' of
             None \<Rightarrow> Aborted
           | Some b \<Rightarrow> Returned (Some (fdiv A a b), Ok)))"
  (is "_ = ?rhs")
proof -
  have at20: "Get_and_State 20 A (Parser_new A) ''1/0'' True = ?rhs"
    by (simp add: run_defs eval_defs split: option.splits)
  have "?rhs \<noteq> OutOfFuel"
    by (simp split: option.splits)
  then show ?thesis
    using Get_and_State_fuel [of 20 A "Parser_new A" "''1/0''" True n] at20 by simp
qed

lemma parse_trailing_point:
  "Get_parse (20 + n) (Parser_new A) ''1.'' True =
     Returned (Expression [] [], InvalidSyntax, Some 2)"
  by (rule more_fuel_parse) (simp add: run_defs eval_defs)

lemma run_trailing_point:
  "Get_and_State (20 + n) A (Parser_new A) ''1.'' True =
     Returned (Some (of_long A 0), UnknownExpressionType)"
  by (rule more_fuel) (simp add: run_defs eval_defs)

lemma run_unknown_symbol:
  "Get_and_State (20 + n) exact (Parser_new exact) ''1 @ 2'' True =
     Returned (Some 1, InvalidSyntax)"
  by (rule more_fuel) (simp add: run_defs eval_defs exact_defs)

lemma parse_two_points:
  "Get_parse (20 + n) (Parser_new A) ''1.2.3'' True =
     Returned (Expression ''1.2.3'' [], Ok, Some 5)"
  by (rule more_fuel_parse) (simp add: run_defs eval_defs)

lemma run_two_points:
  "Get_and_State (20 + n) exact (Parser_new exact) ''1.2.3'' True =
     Returned (Some (6 / 5), Ok)"
  by (rule more_fuel) (simp add: run_defs eval_defs exact_defs)

lemma parse_number_constant:
  "Get_parse (20 + n) (Parser_new A) ''1pi'' True =
     Returned (Expression ''1'' [], Ok, Some (- 5))"
  by (rule more_fuel_parse) (simp add: run_defs eval_defs)

lemma run_group_number_constant:
  "Get (20 + n) A (Parser_new A) ''(1pi)'' True = Aborted"
proof -
  have "Get 20 A (Parser_new A) ''(1pi)'' True = Aborted"
    by (simp add: run_defs eval_defs)
  then show ?thesis
    using Get_fuel [of 20 A "Parser_new A" "''(1pi)''" True n] by simp
qed

lemma run_added_operator:
  "Get_and_State (20 + n) exact (AddOperator (Parser_new exact) ''@'' h) ''1@2'' True =
     Returned (Some 1, Ok)"
  by (rule more_fuel) (simp add: run_defs eval_defs exact_defs AddOperator_def map_insert_def)

lemma run_sin:
  "Get_and_State (20 + n) exact (Parser_new exact) ''sin(0)'' True = Returned (Some 0, Ok)"
  by (rule more_fuel) (simp add: run_defs eval_defs exact_defs deg_in_def)

lemma run_sin_after_s:
  "Get_and_State (20 + n) exact (AddOperator (Parser_new exact) ''s'' h) ''sin(0)'' True =
     Returned (None, UnknownUnaryOperator)"
  by (rule more_fuel) (simp add: run_defs eval_defs exact_defs AddOperator_def map_insert_def)

lemma run_added_function:
  "Get_and_State (20 + n) exact (AddFunction (Parser_new exact) ''exp'' g) ''exp(0)'' True =
     Returned (Some (g 0), Ok)"
  by (rule more_fuel) (simp add: run_defs eval_defs exact_defs AddFunction_def map_insert_def)

subsection \<open>Two operators in a row, for every pair of operators\<close>








lemma run_point_plus:
  "Get_and_State (20 + n) A (Parser_new A) ''1.+'' True =
     Returned (Some (fadd A (of_long A 0) (of_long A 0)), UnknownExpressionType)"
  by (rule more_fuel) (simp add: run_defs eval_defs)

lemma ParseSimpleExpression_failed_at_end:
  assumes "\<not> IsOk P" and "at_end P"
  shows "\<exists>k. ParseSimpleExpression (Suc n) P = Returned (Expression [] [], advance k P)"
proof -
  obtain k where tk: "ParseToken P [] = Some (False, [], advance k P)"
    using ParseToken_at_end [OF assms(2)] by blast
  have "\<not> IsOk (advance k P)"
    using assms(1) by (simp add: IsOk_def advance_def)
  with tk have "ParseSimpleExpression (Suc n) P = Returned (Expression [] [], advance k P)"
    by simp
  then show ?thesis ..
qed

subsection \<open>The leaves the parser builds\<close>

lemma ParseToken_frame:
  assumes "ParseToken P tok = Some (b, t, P1)"
  shows "CONSTANTS P1 = CONSTANTS P" and "IsOk P1 \<Longrightarrow> IsOk P"
  using assms
  by (auto simp: ParseToken_def advance_def IsOk_def Let_def
      split: option.splits prod.splits list.splits if_splits)

lemma list_all_takeWhile: "list_all p (takeWhile p xs)"
  by (induction xs) simp_all

lemma takeWhile_shape:
  assumes "isdigit c"
    and "last (takeWhile (\<lambda>c. isdigit c \<or> c = CHR ''.'') (c # cs)) \<noteq> CHR ''.''"
  shows "numeral_shape (takeWhile (\<lambda>c. isdigit c \<or> c = CHR ''.'') (c # cs))"
proof -
  have "list_all (\<lambda>c. isdigit c \<or> c = CHR ''.'')
      (takeWhile (\<lambda>c. isdigit c \<or> c = CHR ''.'') (c # cs))"
    by (rule list_all_takeWhile)
  then show ?thesis
    using assms by (simp add: numeral_shape_def)
qed

lemma CONSTANTS0_shape:
  assumes "CONSTANTS0 t = Some text"
  shows "numeral_shape text"
proof -
  have "text = ''3.141593'' \<or> text = ''2.718282''"
    using assms by (auto simp: CONSTANTS0_def split: if_splits)
  then show ?thesis
    by (auto simp: numeral_shape_def isdigit_def)
qed

lemma ParseToken_number:
  assumes "ParseToken P [] = Some (True, t, P1)" and "IsOk P1" and "CONSTANTS P = CONSTANTS0"
  shows "numeral_shape t"
  using assms
  by (auto simp: ParseToken_def advance_def IsOk_def Let_def CONSTANTS0_shape
      simp del: takeWhile.simps last.simps
      split: option.splits prod.splits list.splits if_splits
      intro: takeWhile_shape)

lemma leaf_ok_weaken:
  "list_all (leaf_ok b) ts \<Longrightarrow> (b \<Longrightarrow> b') \<Longrightarrow> list_all (leaf_ok b') ts"
  by (auto simp: list_all_iff leaf_ok_def)

lemma parse_leaves:
  "(ParseSimpleExpression n (P :: 'n Parser) = Returned (e, P') \<longrightarrow>
      CONSTANTS P = CONSTANTS0 \<longrightarrow>
      CONSTANTS P' = CONSTANTS0 \<and> (IsOk P' \<longrightarrow> IsOk P) \<and>
      list_all (leaf_ok (\<not> IsOk P')) (leaf_tokens e)) \<and>
   (ParseBinaryExpression n m P = Returned (e, P') \<longrightarrow>
      CONSTANTS P = CONSTANTS0 \<longrightarrow>
      CONSTANTS P' = CONSTANTS0 \<and> (IsOk P' \<longrightarrow> IsOk P) \<and>
      list_all (leaf_ok (\<not> IsOk P')) (leaf_tokens e)) \<and>
   (ParseBinaryLoop n m l P = Returned (e, P') \<longrightarrow>
      CONSTANTS P = CONSTANTS0 \<longrightarrow> list_all (leaf_ok (\<not> IsOk P)) (leaf_tokens l) \<longrightarrow>
      CONSTANTS P' = CONSTANTS0 \<and> (IsOk P' \<longrightarrow> IsOk P) \<and>
      list_all (leaf_ok (\<not> IsOk P')) (leaf_tokens e))"
proof (induction n arbitrary: P e P' m l)
  case 0
  show ?case by simp
next
  case (Suc n)
  have S: "CONSTANTS Q' = CONSTANTS0 \<and> (IsOk Q' \<longrightarrow> IsOk Q) \<and>
      list_all (leaf_ok (\<not> IsOk Q')) (leaf_tokens x)"
    if "ParseSimpleExpression n Q = Returned (x, Q')" "CONSTANTS Q = CONSTANTS0"
    for x and Q Q' :: "'n Parser"
    using Suc.IH [THEN conjunct1] that by blast
  have B: "CONSTANTS Q' = CONSTANTS0 \<and> (IsOk Q' \<longrightarrow> IsOk Q) \<and>
      list_all (leaf_ok (\<not> IsOk Q')) (leaf_tokens x)"
    if "ParseBinaryExpression n k Q = Returned (x, Q')" "CONSTANTS Q = CONSTANTS0"
    for k x and Q Q' :: "'n Parser"
    using Suc.IH [THEN conjunct2, THEN conjunct1] that by blast
  have L: "CONSTANTS Q' = CONSTANTS0 \<and> (IsOk Q' \<longrightarrow> IsOk Q) \<and>
      list_all (leaf_ok (\<not> IsOk Q')) (leaf_tokens x)"
    if "ParseBinaryLoop n k y Q = Returned (x, Q')" "CONSTANTS Q = CONSTANTS0"
      "list_all (leaf_ok (\<not> IsOk Q)) (leaf_tokens y)"
    for k x y and Q Q' :: "'n Parser"
    using Suc.IH [THEN conjunct2, THEN conjunct2] that by blast
  note [simp del] = ParseSimpleExpression.simps ParseBinaryExpression.simps
    ParseBinaryLoop.simps GetPriority.simps
  note uS = ParseSimpleExpression.simps(2) [where P = P]
  note uB = ParseBinaryExpression.simps(2) [where P = P and minPriority = m]
  note uL = ParseBinaryLoop.simps(2) [where P = P and minPriority = m and lhs = l]
  have 1: "CONSTANTS P' = CONSTANTS0 \<and> (IsOk P' \<longrightarrow> IsOk P) \<and>
      list_all (leaf_ok (\<not> IsOk P')) (leaf_tokens e)"
    if r: "ParseSimpleExpression (Suc n) P = Returned (e, P')" and c: "CONSTANTS P = CONSTANTS0"
  proof -
    obtain b t P1 where tk: "ParseToken P [] = Some (b, t, P1)"
      using r by (auto simp: uS split: option.splits)
    have c1: "CONSTANTS P1 = CONSTANTS0" and ok1: "IsOk P1 \<Longrightarrow> IsOk P"
      using ParseToken_frame [OF tk] c by auto
    show ?thesis
    proof (cases "IsOk P1")
      case False
      then show ?thesis using r tk c1 by (auto simp: uS leaf_ok_def)
    next
      case ok: True
      show ?thesis
      proof (cases b)
        case True
        then have "numeral_shape t"
          using ParseToken_number [of P t P1] tk ok c by simp
        then show ?thesis using r tk c1 ok ok1 True by (auto simp: uS leaf_ok_def)
      next
        case nb: False
        show ?thesis
        proof (cases "t = ''(''")
          case True
          then obtain result P2 where
            b2: "ParseBinaryExpression n 0 P1 = Returned (result, P2)"
            using r tk ok nb by (auto simp: uS split: outcome.splits)
          note i2 = B [OF b2 c1]
          obtain b3 t3 P3 where tk3: "ParseToken P2 [] = Some (b3, t3, P3)"
            using r tk ok nb True b2 by (auto simp: uS split: option.splits)
          have c3: "CONSTANTS P3 = CONSTANTS0" and ok3: "IsOk P3 \<Longrightarrow> IsOk P2"
            using ParseToken_frame [OF tk3] i2 by auto
          show ?thesis
          proof (cases "t3 = '')''")
            case False
            then show ?thesis
              using r tk ok nb True b2 tk3 c3 by (auto simp: uS leaf_ok_def IsOk_def)
          next
            case close: True
            have "list_all (leaf_ok (\<not> IsOk P3)) (leaf_tokens result)"
              using i2 ok3 by (blast intro: leaf_ok_weaken)
            then show ?thesis
              using r tk ok nb True b2 tk3 c3 close i2 ok3 ok1 by (auto simp: uS)
          qed
        next
          case False
          then obtain rhs P2 where
            s2: "ParseSimpleExpression n P1 = Returned (rhs, P2)"
            using r tk ok nb by (auto simp: uS split: outcome.splits)
          note i2 = S [OF s2 c1]
          then show ?thesis
            using r tk ok nb False s2 ok1 by (auto simp: uS)
        qed
      qed
    qed
  qed
  have 2: "CONSTANTS P' = CONSTANTS0 \<and> (IsOk P' \<longrightarrow> IsOk P) \<and>
      list_all (leaf_ok (\<not> IsOk P')) (leaf_tokens e)"
    if r: "ParseBinaryExpression (Suc n) m P = Returned (e, P')"
      and c: "CONSTANTS P = CONSTANTS0"
  proof -
    obtain lhs P1 where s1: "ParseSimpleExpression n P = Returned (lhs, P1)"
      using r by (auto simp: uB split: outcome.splits)
    note i1 = S [OF s1 c]
    have l: "ParseBinaryLoop n m lhs P1 = Returned (e, P')"
      using r s1 by (simp add: uB)
    have "CONSTANTS P' = CONSTANTS0 \<and> (IsOk P' \<longrightarrow> IsOk P1) \<and>
        list_all (leaf_ok (\<not> IsOk P')) (leaf_tokens e)"
      using L [OF l] i1 by blast
    then show ?thesis using i1 by blast
  qed
  have 3: "CONSTANTS P' = CONSTANTS0 \<and> (IsOk P' \<longrightarrow> IsOk P) \<and>
      list_all (leaf_ok (\<not> IsOk P')) (leaf_tokens e)"
    if r: "ParseBinaryLoop (Suc n) m l P = Returned (e, P')"
      and c: "CONSTANTS P = CONSTANTS0"
      and ll: "list_all (leaf_ok (\<not> IsOk P)) (leaf_tokens l)"
  proof -
    obtain b t P1 where tk: "ParseToken P [] = Some (b, t, P1)"
      using r by (auto simp: uL split: option.splits)
    have c1: "CONSTANTS P1 = CONSTANTS0" and ok1: "IsOk P1 \<Longrightarrow> IsOk P"
      using ParseToken_frame [OF tk] c by auto
    have ll1: "list_all (leaf_ok (\<not> IsOk P1)) (leaf_tokens l)"
      using ll ok1 by (blast intro: leaf_ok_weaken)
    show ?thesis
    proof (cases "GetPriority t \<le> m")
      case True
      then have "e = l" "P' = advance (- int (length t)) P1"
        using r tk by (simp_all add: uL)
      then show ?thesis
        using c1 ok1 ll1 by (simp add: advance_def IsOk_def)
    next
      case False
      then obtain rhs P2 where
        b2: "ParseBinaryExpression n (GetPriority t) P1 = Returned (rhs, P2)"
        using r tk by (auto simp: uL Let_def split: outcome.splits)
      note i2 = B [OF b2 c1]
      have l3: "ParseBinaryLoop n m (Expression t [l, rhs]) P2 = Returned (e, P')"
        using r tk False b2 by (simp add: uL Let_def)
      have "list_all (leaf_ok (\<not> IsOk P2)) (leaf_tokens l)"
        using ll1 i2 by (blast intro: leaf_ok_weaken)
      then have "list_all (leaf_ok (\<not> IsOk P2)) (leaf_tokens (Expression t [l, rhs]))"
        using i2 by simp
      then have "CONSTANTS P' = CONSTANTS0 \<and> (IsOk P' \<longrightarrow> IsOk P2) \<and>
          list_all (leaf_ok (\<not> IsOk P')) (leaf_tokens e)"
        using L [OF l3] i2 by blast
      then show ?thesis using i2 ok1 by blast
    qed
  qed
  from 1 2 3 show ?case by blast
qed

lemma Get_parse_leaves:
  assumes "CONSTANTS Q = CONSTANTS0" and "Get_parse n Q input radians = Returned (e, st, c)"
  shows "list_all (leaf_ok (st \<noteq> Ok)) (leaf_tokens e)"
proof -
  obtain P' where p: "ParseBinaryExpression n 0 (Get_begin Q input radians) = Returned (e, P')"
    and st: "st = m_State P'"
    using assms(2) by (auto simp: Get_parse_def split: outcome.splits)
  have "CONSTANTS (Get_begin Q input radians) = CONSTANTS0"
    using assms(1) by (simp add: Get_begin_def)
  with p have "list_all (leaf_ok (\<not> IsOk P')) (leaf_tokens e)"
    using parse_leaves [of n "Get_begin Q input radians" e P' 0] by blast
  then show ?thesis by (simp add: st IsOk_def)
qed

section \<open>The claims\<close>

text \<open>
  Claim C1: \<open>AddOperator\<close> registers a binary operator so that every later \<open>Get\<close> of
  an expression using the symbol applies the handler to its two operands, and leaves the
  evaluation of every symbol that was there before as it was. The code does neither.
  After \<open>AddOperator\<close> of \<open>@\<close>, whatever the handler, \<open>GetPriority\<close> of \<open>@\<close> is
  still 0 and \<open>Get\<close> of \<open>1@2\<close> returns the left operand, 1, with state \<open>Ok\<close>. After
  \<open>AddOperator\<close> of \<open>s\<close>, \<open>Get\<close> of \<open>sin(0)\<close>, which returned 0 with state
  \<open>Ok\<close>, returns no value with state \<open>UnknownUnaryOperator\<close>. \<open>AddFunction\<close>,
  next to it, does register a function that later calls apply.
\<close>

theorem C1_added_operator_is_never_applied:
  "GetPriority ''@'' = 0 \<and>
   Get_and_State (20 + n) exact (AddOperator (Parser_new exact) ''@'' h) ''1@2'' True =
     Returned (Some 1, Ok) \<and>
   Get_and_State (20 + n) exact (Parser_new exact) ''sin(0)'' True = Returned (Some 0, Ok) \<and>
   Get_and_State (20 + n) exact (AddOperator (Parser_new exact) ''s'' h) ''sin(0)'' True =
     Returned (None, UnknownUnaryOperator) \<and>
   Get_and_State (20 + n) exact (AddFunction (Parser_new exact) ''exp'' g) ''exp(0)'' True =
     Returned (Some (g 0), Ok)"
  using run_added_operator [of n h] run_sin [of n] run_sin_after_s [of n h]
    run_added_function [of n g]
  by simp



text \<open>
  Claim C3, as the spec states it: \<open>Get\<close> of \<open>2^3^2\<close> returns 512. It does not, with
  any amount of fuel.
\<close>

theorem C3_power_chain_is_not_512:
  "\<not> (\<exists>n. Get_and_State n exact (Parser_new exact) ''2^3^2'' True = Returned (Some 512, Ok))"
proof
  assume "\<exists>n. Get_and_State n exact (Parser_new exact) ''2^3^2'' True
    = Returned (Some 512, Ok)"
  then obtain n where
    "Get_and_State n exact (Parser_new exact) ''2^3^2'' True = Returned (Some 512, Ok)" ..
  with run_power_chain [of n] have "(Some 512 :: real option, Ok) = (Some 64, Ok)"
    by (rule less_fuel)
  then show False by simp
qed

text \<open>
  Claim C3, amended: \<open>Get\<close> of \<open>2^3^2\<close> returns 64 with state \<open>Ok\<close>. The operator
  \<open>^\<close> chains to the left under the comparison \<open>priority \<le> minPriority\<close> of
  \<open>ParseBinaryExpression\<close>: the tree is that of \<open>(2^3)^2\<close>.
\<close>

theorem C3_power_chain_left_associative:
  "Get_parse (20 + n) (Parser_new A) ''2^3^2'' True =
     Returned (Expression ''^'' [Expression ''^'' [Expression ''2'' [], Expression ''3'' []],
       Expression ''2'' []], Ok, Some 5) \<and>
   Get_and_State (20 + n) exact (Parser_new exact) ''2^3^2'' True = Returned (Some 64, Ok)"
  using parse_power_chain [of n A] run_power_chain [of n] by simp

text \<open>
  Claim C4: \<open>Get\<close> of \<open>1.\<close> finishes with the failure state \<open>InvalidSyntax\<close>. The
  tokenizer does set \<open>InvalidSyntax\<close>, and the parse returns the empty node with that
  state; \<open>Get\<close> then evaluates the empty node, which overwrites the state: the caller
  observes \<open>UnknownExpressionType\<close> (and the value 0). On \<open>1 @ 2\<close>, where no empty node
  is built, \<open>InvalidSyntax\<close> is what the caller observes.
\<close>

theorem C4_trailing_point_state_is_overwritten:
  "Get_parse (20 + n) (Parser_new A) ''1.'' True =
     Returned (Expression [] [], InvalidSyntax, Some 2) \<and>
   Get_and_State (20 + n) A (Parser_new A) ''1.'' True =
     Returned (Some (of_long A 0), UnknownExpressionType) \<and>
   Get_and_State (20 + n) exact (Parser_new exact) ''1 @ 2'' True =
     Returned (Some 1, InvalidSyntax)"
  using parse_trailing_point [of n A] run_trailing_point [of n A] run_unknown_symbol [of n]
  by simp

text \<open>
  Claim C5, as the spec states it: \<open>Get\<close> of \<open>3!\<close> returns 6. It does not, with any
  amount of fuel.
\<close>

theorem C5_postfix_bang_is_not_6:
  "\<not> (\<exists>n. Get_and_State n exact (Parser_new exact) ''3!'' True = Returned (Some 6, Ok))"
proof
  assume "\<exists>n. Get_and_State n exact (Parser_new exact) ''3!'' True = Returned (Some 6, Ok)"
  then obtain n where
    "Get_and_State n exact (Parser_new exact) ''3!'' True = Returned (Some 6, Ok)" ..
  with run_postfix_bang [of n] have "(Some 6 :: real option, Ok) = (Some 3, Ok)"
    by (rule less_fuel)
  then show False by simp
qed

text \<open>
  Claim C5, amended: the symbol \<open>!\<close> is a prefix function, as every entry of
  \<open>FUNCTIONS\<close> is. \<open>Get\<close> of \<open>!3\<close> returns 6 with state \<open>Ok\<close>, the gamma
  function at \<open>3 + 1\<close>. In \<open>3!\<close> the \<open>!\<close> is read where a binary operator is
  expected, has priority 0 and is put back: the tree is the leaf \<open>3\<close>, the cursor
  stays on the \<open>!\<close>, and \<open>Get\<close> returns 3 with state \<open>Ok\<close>.
\<close>

theorem C5_bang_is_a_prefix_function:
  "Get_parse (20 + n) (Parser_new A) ''!3'' True =
     Returned (Expression ''!'' [Expression ''3'' []], Ok, Some 2) \<and>
   Get_and_State (20 + n) exact (Parser_new exact) ''!3'' True = Returned (Some 6, Ok) \<and>
   Get_parse (20 + n) (Parser_new A) ''3!'' True = Returned (Expression ''3'' [], Ok, Some 1) \<and>
   Get_and_State (20 + n) exact (Parser_new exact) ''3!'' True = Returned (Some 3, Ok)"
  using parse_prefix_bang [of n A] run_prefix_bang [of n]
    parse_postfix_bang [of n A] run_postfix_bang [of n]
  by simp


text \<open>
  Claim C7, as the spec states it: for every input, every node without argument that the
  parser builds holds a valid unsigned decimal numeral (not empty, digits and at most one
  decimal point), and a token that is not such a numeral makes the evaluation set a failure
  state. On \<open>1.\<close> the parser builds the node with the empty token. On \<open>1.2.3\<close> it
  builds a leaf with two decimal points, and the evaluation returns a value with state
  \<open>Ok\<close>.
\<close>

theorem C7_leaves_that_are_no_numerals:
  "Get_parse 20 (Parser_new exact) ''1.'' True =
     Returned (Expression [] [], InvalidSyntax, Some 2) \<and>
   \<not> list_all claimed_numeral (leaf_tokens (Expression [] [])) \<and>
   Get_parse 20 (Parser_new exact) ''1.2.3'' True =
     Returned (Expression ''1.2.3'' [], Ok, Some 5) \<and>
   \<not> list_all claimed_numeral (leaf_tokens (Expression ''1.2.3'' [])) \<and>
   Get_and_State 20 exact (Parser_new exact) ''1.2.3'' True = Returned (Some (6 / 5), Ok)"
  using parse_trailing_point [of 0 exact] parse_two_points [of 0 exact] run_two_points [of 0]
  by (simp add: claimed_numeral_def)

text \<open>
  Claim C7, amended: with the built-in constants, every node without argument of a tree
  the parser returns holds either the empty token, and then the parse has ended in a
  failure state, or a token of digits and decimal points that is not empty, begins with a
  digit and does not end with a decimal point. Evaluating a node without argument whose
  token is empty or holds a character other than a digit or a decimal point sets
  \<open>UnknownExpressionType\<close> and returns the filler 0.
\<close>

theorem C7_leaves_of_the_parse:
  "(CONSTANTS Q = CONSTANTS0 \<and> Get_parse n Q input radians = Returned (e, st, c) \<longrightarrow>
      list_all (leaf_ok (st \<noteq> Ok)) (leaf_tokens e)) \<and>
   (tok = [] \<or> list_ex (\<lambda>c. \<not> isdigit c \<and> c \<noteq> CHR ''.'') tok \<longrightarrow>
      Evaluate A (Expression tok []) P =
        Returned (Some (of_long A 0), P\<lparr>m_State := UnknownExpressionType\<rparr>))"
proof (intro conjI impI)
  assume "CONSTANTS Q = CONSTANTS0 \<and> Get_parse n Q input radians = Returned (e, st, c)"
  then show "list_all (leaf_ok (st \<noteq> Ok)) (leaf_tokens e)"
    using Get_parse_leaves [of Q n input radians e st c] by simp
next
  assume "tok = [] \<or> list_ex (\<lambda>c. \<not> isdigit c \<and> c \<noteq> CHR ''.'') tok"
  then show "Evaluate A (Expression tok []) P =
      Returned (Some (of_long A 0), P\<lparr>m_State := UnknownExpressionType\<rparr>)"
    by auto
qed

theorem C7_leaves_witness:
  "CONSTANTS (Parser_new exact) = CONSTANTS0 \<and>
   Get_parse 20 (Parser_new exact) ''2+3*4'' True =
     Returned (Expression ''+'' [Expression ''2'' [],
       Expression ''*'' [Expression ''3'' [], Expression ''4'' []]], Ok, Some 5) \<and>
   list_all (leaf_ok (Ok \<noteq> Ok)) (leaf_tokens (Expression ''+'' [Expression ''2'' [],
       Expression ''*'' [Expression ''3'' [], Expression ''4'' []]])) \<and>
   Get_parse 20 (Parser_new exact) ''1.'' True =
     Returned (Expression [] [], InvalidSyntax, Some 2) \<and>
   list_all (leaf_ok (InvalidSyntax \<noteq> Ok)) (leaf_tokens (Expression [] [])) \<and>
   list_ex (\<lambda>c. \<not> isdigit c \<and> c \<noteq> CHR ''.'') ''2x'' \<and>
   Evaluate exact (Expression ''2x'' []) (Parser_new exact) =
     Returned (Some 0, Parser_new exact\<lparr>m_State := UnknownExpressionType\<rparr>)"
  using
    C7_leaves_of_the_parse [where Q = "Parser_new exact" and n = 20 and input = "''2+3*4''"
      and radians = True and st = Ok and c = "Some 5" and tok = "''2x''" and A = exact
      and P = "Parser_new exact"
      and e = "Expression ''+'' [Expression ''2'' [],
        Expression ''*'' [Expression ''3'' [], Expression ''4'' []]]"]
    C7_leaves_of_the_parse [where Q = "Parser_new exact" and n = 20 and input = "''1.''"
      and radians = True and st = InvalidSyntax and c = "Some 2" and tok = "[]" and A = exact
      and P = "Parser_new exact" and e = "Expression [] []"]
    parse_sum_product [of 0 exact] parse_trailing_point [of 0 exact]
  by (simp add: isdigit_def)

text \<open>
  Claim C8: when \<open>ParseBinaryExpression\<close> puts a peeked token back, the cursor returns
  to the position at which the token began, and never moves before the start of the
  input. The code subtracts the length of the token text, which for a constant is the
  substituted numeral, not the symbol read: on \<open>1pi\<close> the token \<open>pi\<close> began at
  offset 1, the cursor is at 3 after it, and the rewind by the 8 characters of
  \<open>3.141593\<close> leaves it at offset \<open>- 5\<close>. Inside parentheses the next read is then
  outside the buffer.
\<close>

theorem C8_rewind_before_the_buffer:
  "Get_parse (20 + n) (Parser_new A) ''1pi'' True =
     Returned (Expression ''1'' [], Ok, Some (- 5)) \<and>
   Get (20 + n) A (Parser_new A) ''(1pi)'' True = Aborted"
  using parse_number_constant [of n A] run_group_number_constant [of n A] by simp

text \<open>
  Claim C9, as the spec states it: for every input that ends where a simple expression is
  still required, \<open>ParseSimpleExpression\<close> calls itself without end and \<open>Get\<close> never
  returns. The input \<open>1.+\<close> ends right after a binary operator, and \<open>Get\<close> returns
  on it: the tokenizer has set \<open>InvalidSyntax\<close> on \<open>1.\<close>, so at the end of the input
  \<open>ParseSimpleExpression\<close> returns the empty node through its \<^verbatim>\<open>!IsOk()\<close> guard.
\<close>

theorem C9_returns_once_a_failure_is_set:
  "at_end ((advance 3 (Get_begin (Parser_new exact) ''1.+'' True))\<lparr>m_State := InvalidSyntax\<rparr>) \<and>
   ParseSimpleExpression 1
     ((advance 3 (Get_begin (Parser_new exact) ''1.+'' True))\<lparr>m_State := InvalidSyntax\<rparr>)
     \<noteq> OutOfFuel \<and>
   Get_and_State 20 exact (Parser_new exact) ''1.+'' True =
     Returned (Some 0, UnknownExpressionType)"
  using run_point_plus [of 0 exact]
  by (simp add: at_end_def Get_begin_def advance_def tolower_def ParseToken_def IsOk_def)

text \<open>
  Claim C9, amended: for the empty input, and for every input that ends where a simple
  expression is still required while no failure state is set, such as \<open>1+\<close>,
  \<open>ParseSimpleExpression\<close> calls itself without consuming input, so \<open>Get\<close> never
  returns a result or a failure state. Whenever the state is \<open>Ok\<close> and only white
  space is left, \<open>ParseSimpleExpression\<close> runs out of every amount of fuel, and so does
  \<open>Get\<close> on the empty input (whatever the registry) and on \<open>1+\<close>. Once a failure
  state is set, \<open>ParseSimpleExpression\<close> returns the empty node at the end of the input.
\<close>

theorem C9_no_return_at_end_of_input:
  "(IsOk P \<and> at_end P \<longrightarrow> ParseSimpleExpression n P = OutOfFuel) \<and>
   Get n A Q [] radians = OutOfFuel \<and>
   Get n A (Parser_new A) ''1+'' radians = OutOfFuel \<and>
   (\<not> IsOk P \<and> at_end P \<longrightarrow>
      (\<exists>k. ParseSimpleExpression (Suc n) P = Returned (Expression [] [], advance k P)))"
proof (intro conjI impI)
  assume "IsOk P \<and> at_end P"
  then show "ParseSimpleExpression n P = OutOfFuel"
    by (simp add: ParseSimpleExpression_at_end)
next
  have "ParseSimpleExpression k (Get_begin Q [] radians) = OutOfFuel" for k
    by (rule ParseSimpleExpression_at_end) (simp_all add: IsOk_def at_end_def Get_begin_def)
  then have "ParseBinaryExpression n 0 (Get_begin Q [] radians) = OutOfFuel"
    by (cases n) simp_all
  then show "Get n A Q [] radians = OutOfFuel"
    by (simp add: Get_def)
next
  have "ParseBinaryExpression n 0 (Get_begin (Parser_new A) ''1+'' radians) = OutOfFuel"
  proof (cases n)
    case 0
    then show ?thesis by simp
  next
    case n: (Suc k)
    show ?thesis
    proof (cases k)
      case 0
      then show ?thesis using n by simp
    next
      case (Suc j)
      then show ?thesis
        using n
        by (simp add: ParseBinaryExpression_at_end at_end_def ParseToken_def Get_begin_def
            tolower_def isspace_def isdigit_def advance_def IsOk_def TOKENS0_def
            CONSTANTS0_def strncmp_eq_def)
    qed
  qed
  then show "Get n A (Parser_new A) ''1+'' radians = OutOfFuel"
    by (simp add: Get_def)
next
  assume "\<not> IsOk P \<and> at_end P"
  then show "\<exists>k. ParseSimpleExpression (Suc n) P = Returned (Expression [] [], advance k P)"
    using ParseSimpleExpression_failed_at_end [of P n] by blast
qed

theorem C9_no_return_witness:
  "IsOk (Get_begin (Parser_new exact) ''  '' True) \<and>
   at_end (Get_begin (Parser_new exact) ''  '' True) \<and>
   ParseSimpleExpression 7 (Get_begin (Parser_new exact) ''  '' True) = OutOfFuel \<and>
   Get 7 exact (Parser_new exact) [] True = OutOfFuel \<and>
   Get 7 exact (Parser_new exact) ''1+'' True = OutOfFuel \<and>
   \<not> IsOk ((Get_begin (Parser_new exact) ''  '' True)\<lparr>m_State := InvalidSyntax\<rparr>) \<and>
   at_end ((Get_begin (Parser_new exact) ''  '' True)\<lparr>m_State := InvalidSyntax\<rparr>) \<and>
   (\<exists>k. ParseSimpleExpression (Suc 7)
      ((Get_begin (Parser_new exact) ''  '' True)\<lparr>m_State := InvalidSyntax\<rparr>) =
      Returned (Expression [] [],
        advance k ((Get_begin (Parser_new exact) ''  '' True)\<lparr>m_State := InvalidSyntax\<rparr>)))"
  using
    C9_no_return_at_end_of_input
      [of "Get_begin (Parser_new exact) ''  '' True" 7 exact "Parser_new exact" True]
    C9_no_return_at_end_of_input
      [of "(Get_begin (Parser_new exact) ''  '' True)\<lparr>m_State := InvalidSyntax\<rparr>" 7 exact
        "Parser_new exact" True]
  by (simp add: IsOk_def at_end_def Get_begin_def isspace_def tolower_def)

text \<open>
  Claim C10: the built-in \<open>/\<close> applied to a zero right operand sets no failure state.
  \<open>Get\<close> of \<open>1/0\<close> returns with state \<open>Ok\<close>, and its value is the quotient the
  platform's division gives for the two literals (it does not return only if
  \<^verbatim>\<open>std::stold\<close> throws on \<open>1\<close> or \<open>0\<close>). The handler of \<open>/\<close> is the
  division alone: it has no access to the state.
\<close>

theorem C10_division_by_zero_keeps_Ok:
  "Get_and_State (20 + n) A (Parser_new A) ''1/0'' True =
     (case stold A ''1'' of
        None \<Rightarrow> Aborted
      | Some a \<Rightarrow>
          (case stold A ''0'' of
             None \<Rightarrow> Aborted
           | Some b \<Rightarrow> Returned (Some (fdiv A a b), Ok))) \<and>
   stold exact ''1'' = Some 1 \<and> stold exact ''0'' = Some 0 \<and>
   OPERATORS (Parser_new A) ''/'' = Some (\<lambda>a b. Some (fdiv A a b))"
proof -
  have "stold exact ''1'' = Some 1" "stold exact ''0'' = Some 0"
    by (simp_all add: stold_exact_def digit_val_def isdigit_def)
  moreover have "OPERATORS (Parser_new A) ''/'' = Some (\<lambda>a b. Some (fdiv A a b))"
    by (simp add: OPERATORS0_def)
  ultimately show ?thesis
    using run_div_zero [of n A] by simp
qed

end
